theory Spec2Isabelle
  imports Complex_Main "HOL-Library.Sublist"
begin

section \<open>Reading triangulated models: brep.py\<close>

text \<open>
  The module reads an STL file in one piece (a Python 2 byte string), decides whether it
  is binary or text, and hands back the name of the solid, the number of facets and a
  generator of facets.

  Conventions of the embedding:
  \<^item> a Python 2 \<open>str\<close> is a list of bytes, \<open>string\<close>;
  \<^item> a Python \<open>float\<close> is a value of a type \<open>'f\<close> that is left open, and the
    operations on floats that the module uses are a parameter \<open>ar\<close> of everything that
    computes with them: nothing is assumed about rounding, overflow, infinities or NaN,
    and an operation that can raise returns \<open>error + 'f\<close>. How four packed bytes or a
    token become a float is not code of the module either (\<open>struct.unpack\<close>, \<open>float\<close>),
    so the two decoders are parameters \<open>uf\<close> and \<open>pf\<close> of the readers;
  \<^item> an exception is a value of type \<open>error\<close>, and a function that can raise
    returns \<open>error + 'a\<close>;
  \<^item> a generator is represented by everything it yields when it is drained, together
    with the way it ends: \<open>Finished\<close> (StopIteration) or \<open>Raised e\<close>;
  \<^item> the leading underscore of the private names is dropped, and the vector helpers
    carry the suffix \<open>_v\<close> (\<open>norm\<close> is a constant of HOL).
\<close>

subsection \<open>Data\<close>

type_synonym bytes = string

type_synonym 'f vec = "'f \<times> 'f \<times> 'f"

type_synonym 'f facet = "'f vec \<times> 'f vec \<times> 'f vec \<times> 'f vec"

text \<open>
  The status strings \<open>'facet {} OK'\<close> and \<open>'skipped degenerate facet {}.'\<close>, with the
  number that is formatted into them.
\<close>

datatype status = FacetOK nat | SkippedDegenerate nat

type_synonym 'f item = "status \<times> 'f facet option"

datatype error = ValueError string | IndexError | StructError | OverflowError

datatype outcome = Finished | Raised error

type_synonym 'f run = "'f item list \<times> outcome"

text \<open>The suspended generator returned by \<open>fromstl\<close>, with the list it was given.\<close>

datatype reader = BinaryReader "bytes list" | TextReader "string list"


definition FormatMismatch :: error where
  "FormatMismatch = ValueError (''Number of facets doesn'' @ [CHR 0x27] @ ''t match file size.'')"

definition NotAnStlFile :: error where
  "NotAnStlFile = ValueError ''Not an STL file.''"

subsection \<open>Float arithmetic\<close>

text \<open>
  The operations on floats that the module uses. \<open>+\<close>, \<open>-\<close> and \<open>*\<close> on floats never
  raise. \<open>x ** 2\<close> and \<open>x ** 0.5\<close> can: Python raises OverflowError when the result is out
  of range, and ValueError for a negative number and a fractional power. \<open>x / L\<close> raises
  only for a divisor that compares equal to \<open>0.0\<close>, which \<open>_norm\<close> has excluded before it
  divides. \<open>fzero x\<close> is the comparison \<open>x == 0.0\<close>.
\<close>

record 'f arith =
  fadd :: "'f \<Rightarrow> 'f \<Rightarrow> 'f"
  fsub :: "'f \<Rightarrow> 'f \<Rightarrow> 'f"
  fmul :: "'f \<Rightarrow> 'f \<Rightarrow> 'f"
  fdiv :: "'f \<Rightarrow> 'f \<Rightarrow> 'f"
  fsquare :: "'f \<Rightarrow> error + 'f"
  froot :: "'f \<Rightarrow> error + 'f"
  fzero :: "'f \<Rightarrow> bool"

subsection \<open>Vector helpers\<close>

definition add_v :: "'f arith \<Rightarrow> 'f vec \<Rightarrow> 'f vec \<Rightarrow> 'f vec" where
  "add_v ar a b = (case a of (a0, a1, a2) \<Rightarrow> case b of (b0, b1, b2) \<Rightarrow>
     (fadd ar a0 b0, fadd ar a1 b1, fadd ar a2 b2))"

definition sub_v :: "'f arith \<Rightarrow> 'f vec \<Rightarrow> 'f vec \<Rightarrow> 'f vec" where
  "sub_v ar a b = (case a of (a0, a1, a2) \<Rightarrow> case b of (b0, b1, b2) \<Rightarrow>
     (fsub ar a0 b0, fsub ar a1 b1, fsub ar a2 b2))"

definition cross_v :: "'f arith \<Rightarrow> 'f vec \<Rightarrow> 'f vec \<Rightarrow> 'f vec" where
  "cross_v ar a b = (case a of (a0, a1, a2) \<Rightarrow> case b of (b0, b1, b2) \<Rightarrow>
     (fsub ar (fmul ar a1 b2) (fmul ar a2 b1),
      fsub ar (fmul ar a2 b0) (fmul ar a0 b2),
      fsub ar (fmul ar a0 b1) (fmul ar a1 b0)))"

text \<open>
  \<open>_norm\<close>. The three squares are computed from left to right, then the root of their
  sum; the first of these that raises ends the call.
\<close>

definition norm_v :: "'f arith \<Rightarrow> 'f vec \<Rightarrow> error + 'f vec" where
  "norm_v ar a = (case a of (a0, a1, a2) \<Rightarrow>
     (case fsquare ar a0 of Inl e \<Rightarrow> Inl e | Inr s0 \<Rightarrow>
     (case fsquare ar a1 of Inl e \<Rightarrow> Inl e | Inr s1 \<Rightarrow>
     (case fsquare ar a2 of Inl e \<Rightarrow> Inl e | Inr s2 \<Rightarrow>
     (case froot ar (fadd ar (fadd ar s0 s1) s2) of Inl e \<Rightarrow> Inl e | Inr L \<Rightarrow>
        if fzero ar L then Inl (ValueError ''zero-length normal vector'')
        else Inr (fdiv ar a0 L, fdiv ar a1 L, fdiv ar a2 L))))))"

subsection \<open>String helpers of Python\<close>

text \<open>\<open>s.find(sub, start)\<close>: the lowest index at or after \<open>start\<close>, or \<open>-1\<close>.\<close>

fun find_at :: "string \<Rightarrow> string \<Rightarrow> nat \<Rightarrow> nat option" where
  "find_at sub [] i = (if sub = [] then Some i else None)"
| "find_at sub (c # cs) i =
     (if prefix sub (c # cs) then Some i else find_at sub cs (Suc i))"

definition str_find :: "string \<Rightarrow> string \<Rightarrow> nat \<Rightarrow> int" where
  "str_find s sub start =
     (if length s < start then - 1
      else case find_at sub (drop start s) start of None \<Rightarrow> - 1 | Some i \<Rightarrow> int i)"

text \<open>
  \<open>s.replace(old, "")\<close> for a non-empty \<open>old\<close>: every occurrence, found from left to
  right without overlap, is deleted.
\<close>

function str_remove :: "string \<Rightarrow> string \<Rightarrow> string" where
  "str_remove old [] = []"
| "str_remove old (c # cs) =
     (if old \<noteq> [] \<and> prefix old (c # cs) then str_remove old (drop (length old) (c # cs))
      else c # str_remove old cs)"
  by pat_completeness auto
termination
proof (relation "measure (\<lambda>(old, s). length s)")
  fix old :: string and c cs
  assume "old \<noteq> [] \<and> prefix old (c # cs)"
  then have "0 < length old" by simp
  then show "((old, drop (length old) (c # cs)), (old, c # cs)) \<in> measure (\<lambda>(old, s). length s)"
    by simp
qed simp_all

text \<open>\<open>s.strip(chars)\<close>: the characters of \<open>chars\<close> are removed at both ends.\<close>

definition str_strip :: "string \<Rightarrow> string \<Rightarrow> string" where
  "str_strip chars s =
     rev (dropWhile (\<lambda>c. c \<in> set chars) (rev (dropWhile (\<lambda>c. c \<in> set chars) s)))"

text \<open>The whitespace of a Python 2 byte string: space, tab, LF, VT, FF and CR.\<close>

definition whitespace :: string where
  "whitespace = [CHR 0x20, CHR 0x09, CHR 0x0A, CHR 0x0B, CHR 0x0C, CHR 0x0D]"

text \<open>
  \<open>s.split()\<close>: the maximal runs of characters that are not whitespace. \<open>w\<close> is the word
  being read.
\<close>

fun split_acc :: "string \<Rightarrow> string \<Rightarrow> string list" where
  "split_acc w [] = (if w = [] then [] else [w])"
| "split_acc w (c # cs) =
     (if c \<in> set whitespace then (if w = [] then split_acc [] cs else w # split_acc [] cs)
      else split_acc (w @ [c]) cs)"

definition str_split :: "string \<Rightarrow> string list" where
  "str_split s = split_acc [] s"

text \<open>\<open>' '.join(xs)\<close>.\<close>

fun join_sp :: "string list \<Rightarrow> string" where
  "join_sp [] = []"
| "join_sp [x] = x"
| "join_sp (x # y # ys) = x @ '' '' @ join_sp (y # ys)"

text \<open>\<open>xs.index(x)\<close>: the first position of \<open>x\<close>; \<open>None\<close> stands for the ValueError.\<close>

fun list_index :: "'a list \<Rightarrow> 'a \<Rightarrow> nat option" where
  "list_index [] x = None"
| "list_index (y # ys) x =
     (if y = x then Some 0 else map_option Suc (list_index ys x))"

text \<open>\<open>range(0, stop, 50)\<close>.\<close>

definition range50 :: "nat \<Rightarrow> nat list" where
  "range50 stop = map (\<lambda>k. 50 * k) [0 ..< (stop + 49) div 50]"

subsection \<open>Unpacking\<close>

text \<open>
  The \<open>I\<close> field of \<open>"=80sI"\<close>: four bytes, least significant first (the byte order of
  the format and of the machines the module is run on).
\<close>

definition unpack_I :: "bytes \<Rightarrow> nat" where
  "unpack_I bs =
     of_char (bs ! 0) + 256 * of_char (bs ! 1) + 65536 * of_char (bs ! 2)
       + 16777216 * of_char (bs ! 3)"

text \<open>
  \<open>struct.unpack("=12x9f2x", i)\<close>: fails unless \<open>i\<close> has 50 bytes; the nine floats sit at
  the offsets 12, 16, ..., 44.
\<close>

definition unpack_facet :: "(bytes \<Rightarrow> 'f) \<Rightarrow> bytes \<Rightarrow> error + ('f vec \<times> 'f vec \<times> 'f vec)" where
  "unpack_facet uf i =
     (if length i \<noteq> 50 then Inl StructError
      else let f = (\<lambda>k. uf (take 4 (drop (12 + 4 * k) i)))
           in Inr ((f 0, f 1, f 2), (f 3, f 4, f 5), (f 6, f 7, f 8)))"

text \<open>
  A packed IEEE 754 single, least significant byte first, for finite values (an exponent
  field of 255 has no real value; it does not occur in the files evaluated below).
\<close>

definition ieee_single :: "bytes \<Rightarrow> real" where
  "ieee_single bs =
     (let w = unpack_I bs; s = w div 2 ^ 31; e = (w div 2 ^ 23) mod 256; m = w mod 2 ^ 23;
          r = (if e = 0 then real m / 2 ^ 149
               else if 150 \<le> e then real (2 ^ 23 + m) * 2 ^ (e - 150)
               else real (2 ^ 23 + m) / 2 ^ (150 - e))
      in if s = 1 then - r else r)"

text \<open>
  \<open>float(tok)\<close> on the unsigned decimal integers used in the files evaluated below;
  \<open>None\<close> stands for the ValueError.
\<close>

fun digits_val :: "nat \<Rightarrow> string \<Rightarrow> nat option" where
  "digits_val acc [] = Some acc"
| "digits_val acc (c # cs) =
     (let d = (of_char c :: nat) in
      if 48 \<le> d \<and> d \<le> 57 then digits_val (10 * acc + (d - 48)) cs else None)"

definition float_digits :: "string \<Rightarrow> real option" where
  "float_digits tok = (if tok = [] then None else map_option real (digits_val 0 tok))"

subsection \<open>fromstl\<close>

text \<open>
  The test \<open>data.find('vertex', 120) == -1\<close> that selects the binary branch.
\<close>

definition is_binary :: "bytes \<Rightarrow> bool" where
  "is_binary data = (str_find data ''vertex'' 120 = - 1)"

text \<open>
  Lines 51 to 54: the name of a binary file, from the 80 bytes of the \<open>80s\<close> field.
\<close>

definition binary_name :: "bytes \<Rightarrow> string" where
  "binary_name field =
     (let name = str_remove ''solid '' field;
          name = str_strip [CHR 0x00, CHR 0x20, CHR 0x09, CHR 0x0A, CHR 0x0D] name
      in if length name = 0 then ''unknown'' else name)"

text \<open>Line 63: the tokens of a text file.\<close>

definition tokens :: "bytes \<Rightarrow> string list" where
  "tokens data = map (str_strip whitespace) (str_split data)"

text \<open>
  The argument is the contents of the file (the \<open>open\<close> and \<open>read\<close> of lines 47 and 48
  are not modelled). The generator is created, not started: nothing it raises is raised
  here.
\<close>

definition fromstl :: "bytes \<Rightarrow> error + (string \<times> nat \<times> reader)" where
  "fromstl data =
     (if is_binary data then
        (if length (take 84 data) \<noteq> 84 then Inl StructError
         else let name = binary_name (take 80 data);
                  nf1 = unpack_I (drop 80 (take 84 data));
                  data = drop 84 data;
                  facetsz = length data;
                  nf2 = facetsz div 50
              in if nf1 \<noteq> nf2
                 then Inl (ValueError (''Number of facets doesn'' @ [CHR 0x27] @ ''t match file size.''))
                 else let items = map (\<lambda>n. take 50 (drop n data)) (range50 facetsz)
                      in Inr (name, nf1, BinaryReader items))
      else
        (let items = tokens data
         in case (list_index items ''solid'', list_index items ''facet'') of
              (Some i, Some en) \<Rightarrow>
                (let sn = i + 1;
                     name = (if sn = en then ''unknown''
                             else join_sp (take (en - sn) (drop sn items)));
                     nf1 = count_list items ''facet''
                 in Inr (name, nf1, TextReader (drop en items)))
            | _ \<Rightarrow> Inl (ValueError ''Not an STL file.'')))"

subsection \<open>The generators\<close>

text \<open>What follows the items of one facet in a run.\<close>

definition yield :: "'f item list \<Rightarrow> 'f run \<Rightarrow> 'f run" where
  "yield xs r = (xs @ fst r, snd r)"

text \<open>
  \<open>_readbinary\<close>; \<open>cnt\<close> is the counter of \<open>enumerate\<close>, 0 at the start. Only a ValueError
  of \<open>_norm\<close> is caught, any other exception leaves the generator; after the \<open>yield\<close> of
  the handler the generator goes on to the \<open>yield\<close> of line 130, with \<open>n\<close> still the
  cross product.
\<close>

fun readbinary :: "'f arith \<Rightarrow> (bytes \<Rightarrow> 'f) \<Rightarrow> nat \<Rightarrow> bytes list \<Rightarrow> 'f run" where
  "readbinary ar uf cnt [] = ([], Finished)"
| "readbinary ar uf cnt (i # items) =
     (case unpack_facet uf i of
        Inl e \<Rightarrow> ([], Raised e)
      | Inr (a, b, c) \<Rightarrow>
          (let u = sub_v ar b a;
               v = sub_v ar c b;
               n = cross_v ar u v
           in case norm_v ar n of
                Inr n' \<Rightarrow>
                  yield [(FacetOK (cnt + 1), Some (a, b, c, n'))]
                    (readbinary ar uf (cnt + 1) items)
              | Inl (ValueError m) \<Rightarrow>
                  yield [(SkippedDegenerate (cnt + 1), None),
                         (SkippedDegenerate (cnt + 1), Some (a, b, c, n))]
                    (readbinary ar uf (cnt + 1) items)
              | Inl e \<Rightarrow> ([], Raised e)))"

text \<open>
  \<open>float(items[k])\<close>: an IndexError when the list is too short, else the ValueError of
  \<open>float\<close>.
\<close>

definition float_at :: "(string \<Rightarrow> 'f option) \<Rightarrow> string list \<Rightarrow> nat \<Rightarrow> error + 'f" where
  "float_at pf items k =
     (if length items \<le> k then Inl IndexError
      else case pf (items ! k) of
             None \<Rightarrow> Inl (ValueError (''could not convert string to float: '' @ items ! k))
           | Some x \<Rightarrow> Inr x)"

text \<open>Three coordinates, read from left to right; the first failure is the one raised.\<close>

definition vertex_at :: "(string \<Rightarrow> 'f option) \<Rightarrow> string list \<Rightarrow> nat \<Rightarrow> error + 'f vec" where
  "vertex_at pf items k =
     (case float_at pf items k of Inl e \<Rightarrow> Inl e | Inr x \<Rightarrow>
     (case float_at pf items (k + 1) of Inl e \<Rightarrow> Inl e | Inr y \<Rightarrow>
     (case float_at pf items (k + 2) of Inl e \<Rightarrow> Inl e | Inr z \<Rightarrow> Inr (x, y, z))))"

text \<open>Lines 150 to 152.\<close>

definition vertices_at ::
  "(string \<Rightarrow> 'f option) \<Rightarrow> string list \<Rightarrow> error + ('f vec \<times> 'f vec \<times> 'f vec)" where
  "vertices_at pf items =
     (case vertex_at pf items 8 of Inl e \<Rightarrow> Inl e | Inr a \<Rightarrow>
     (case vertex_at pf items 12 of Inl e \<Rightarrow> Inl e | Inr b \<Rightarrow>
     (case vertex_at pf items 16 of Inl e \<Rightarrow> Inl e | Inr c \<Rightarrow> Inr (a, b, c))))"

text \<open>
  \<open>_readtext\<close>; \<open>cnt\<close> is 0 at the start. \<open>items[0]\<close> at the head of the loop is an
  IndexError on the empty list. As in \<open>_readbinary\<close>, only a ValueError of \<open>_norm\<close> is
  caught.
\<close>

function readtext ::
  "'f arith \<Rightarrow> (string \<Rightarrow> 'f option) \<Rightarrow> nat \<Rightarrow> string list \<Rightarrow> 'f run" where
  "readtext ar pf cnt items =
     (case items of
        [] \<Rightarrow> ([], Raised IndexError)
      | t # ts \<Rightarrow>
          if t \<noteq> ''facet'' then ([], Finished)
          else (case vertices_at pf items of
                  Inl e \<Rightarrow> ([], Raised e)
                | Inr (a, b, c) \<Rightarrow>
                    (let u = sub_v ar b a;
                         v = sub_v ar c b;
                         n = cross_v ar u v;
                         items' = drop 21 items;
                         cnt = cnt + 1
                     in case norm_v ar n of
                          Inr n' \<Rightarrow>
                            yield [(FacetOK cnt, Some (a, b, c, n'))]
                              (readtext ar pf cnt items')
                        | Inl (ValueError m) \<Rightarrow>
                            yield [(SkippedDegenerate cnt, None),
                                   (SkippedDegenerate cnt, Some (a, b, c, n))]
                              (readtext ar pf cnt items')
                        | Inl e \<Rightarrow> ([], Raised e))))"
  by pat_completeness auto
termination
  by (relation "measure (\<lambda>(ar, pf, cnt, items). length items)") auto

text \<open>The run of the generator that \<open>fromstl\<close> returned.\<close>

fun run_reader ::
  "'f arith \<Rightarrow> (bytes \<Rightarrow> 'f) \<Rightarrow> (string \<Rightarrow> 'f option) \<Rightarrow> reader \<Rightarrow> 'f run" where
  "run_reader ar uf pf (BinaryReader items) = readbinary ar uf 0 items"
| "run_reader ar uf pf (TextReader items) = readtext ar pf 0 items"

subsection \<open>allfacets\<close>

text \<open>
  The loop of lines 92 to 96: a facet is appended when it is true, and of the two values
  a reader yields, \<open>None\<close> is false and a tuple of four is true.
\<close>

fun collect :: "'f facet list \<Rightarrow> 'f item list \<Rightarrow> 'f facet list" where
  "collect fl [] = fl"
| "collect fl ((stat, facet) # rest) =
     collect (case facet of None \<Rightarrow> fl | Some f \<Rightarrow> fl @ [f]) rest"

text \<open>
  The first component is what is printed, the second what is returned; an exception of
  the reader leaves the loop and \<open>allfacets\<close>.
\<close>

definition allfacets :: "'f run \<Rightarrow> bool \<Rightarrow> status list \<times> (error + 'f facet list)" where
  "allfacets r verbose =
     ((if verbose then map fst (fst r) else []),
      (case snd r of Raised e \<Rightarrow> Inl e | Finished \<Rightarrow> Inr (collect [] (fst r))))"

declare readtext.simps [simp del]

subsection \<open>The behaviour the specification describes\<close>

text \<open>The cross product both readers compute from the three vertices.\<close>

definition normal_of :: "'f arith \<Rightarrow> 'f vec \<times> 'f vec \<times> 'f vec \<Rightarrow> 'f vec" where
  "normal_of ar t = (case t of (a, b, c) \<Rightarrow> cross_v ar (sub_v ar b a) (sub_v ar c b))"

text \<open>
  Sections 4.2 and 4.3 of the specification: a facet whose normalization fails gives a
  marker item without a facet and then the item with the facet as it is; any other facet
  gives one item. \<open>k\<close> is the 1-based index.
\<close>

definition spec_items :: "'f arith \<Rightarrow> nat \<Rightarrow> 'f vec \<times> 'f vec \<times> 'f vec \<Rightarrow> 'f item list" where
  "spec_items ar k t =
     (case t of (a, b, c) \<Rightarrow>
        (case norm_v ar (normal_of ar t) of
           Inl e \<Rightarrow> [(SkippedDegenerate k, None),
                     (SkippedDegenerate k, Some (a, b, c, normal_of ar t))]
         | Inr n \<Rightarrow> [(FacetOK k, Some (a, b, c, n))]))"

fun spec_stream :: "'f arith \<Rightarrow> nat \<Rightarrow> ('f vec \<times> 'f vec \<times> 'f vec) list \<Rightarrow> 'f item list" where
  "spec_stream ar cnt [] = []"
| "spec_stream ar cnt (t # ts) = spec_items ar (cnt + 1) t @ spec_stream ar (cnt + 1) ts"

text \<open>
  The normalization of the facet returns a normal, or fails with the ValueError that the
  readers catch.
\<close>

definition norm_caught :: "'f arith \<Rightarrow> 'f vec \<times> 'f vec \<times> 'f vec \<Rightarrow> bool" where
  "norm_caught ar t =
     (case norm_v ar (normal_of ar t) of
        Inr n \<Rightarrow> True
      | Inl (ValueError m) \<Rightarrow> True
      | Inl e \<Rightarrow> False)"

text \<open>
  Section 4.1 of the specification on the name of a binary file: a leading \<open>"solid "\<close> is
  stripped, the rest trimmed, and an empty result replaced by \<open>"unknown"\<close>.
\<close>

definition spec_binary_name :: "bytes \<Rightarrow> string" where
  "spec_binary_name field =
     (let name = (if prefix ''solid '' field then drop 6 field else field);
          name = str_strip [CHR 0x00, CHR 0x20, CHR 0x09, CHR 0x0A, CHR 0x0D] name
      in if name = [] then ''unknown'' else name)"

text \<open>
  Section 4.1 of the specification on the name of a text file: the tokens strictly between
  the first \<open>solid\<close> and the first \<open>facet\<close>, joined by spaces, or \<open>"unknown"\<close> if there
  are none.
\<close>

definition spec_between :: "string list \<Rightarrow> string list" where
  "spec_between items =
     (case (list_index items ''solid'', list_index items ''facet'') of
        (Some i, Some j) \<Rightarrow> map (\<lambda>k. items ! k) [i + 1 ..< j]
      | _ \<Rightarrow> [])"

definition spec_text_name :: "string list \<Rightarrow> string" where
  "spec_text_name items =
     (if spec_between items = [] then ''unknown'' else join_sp (spec_between items))"

subsection \<open>Files and records used below\<close>

text \<open>
  The arithmetic in which the files below are evaluated. A float is the real number it
  stands for, and the operations are the exact ones, so that it computes what Python
  computes wherever Python does not round; this is the case for the small integers in
  the files below. Of the behaviour at the ends of the range it has what \<open>_norm\<close> can
  meet: \<open>x ** 2\<close> raises OverflowError when the square is beyond the largest double
  (it rounds to infinity from \<open>2^1024 - 2^970\<close> on) and is \<open>0.0\<close> when the square is at
  most half of the smallest positive double, \<open>2^-1074\<close>. The numbers evaluated at those
  ends below are powers of two, which a double holds exactly.
\<close>

definition square_double :: "real \<Rightarrow> error + real" where
  "square_double x =
     (if 2 ^ 1024 - 2 ^ 970 \<le> x * x then Inl OverflowError
      else if x * x \<le> 1 / 2 ^ 1075 then Inr 0
      else Inr (x * x))"

definition root_double :: "real \<Rightarrow> error + real" where
  "root_double x =
     (if x < 0 then Inl (ValueError ''negative number cannot be raised to a fractional power'')
      else Inr (sqrt x))"

definition double_arith :: "real arith" where
  "double_arith =
     \<lparr>fadd = (+), fsub = (-), fmul = (*), fdiv = (/),
      fsquare = square_double, froot = root_double, fzero = (\<lambda>x. x = 0)\<rparr>"

text \<open>A record with the vertices (0,0,0), (1,0,0), (2,0,0), which lie on one line.\<close>

definition collinear_record :: bytes where
  "collinear_record =
     replicate 24 (CHR 0x00) @ [CHR 0x00, CHR 0x00, CHR 0x80, CHR 0x3F] @ replicate 8 (CHR 0x00)
       @ [CHR 0x00, CHR 0x00, CHR 0x00, CHR 0x40] @ replicate 10 (CHR 0x00)"

text \<open>A record with the vertices (0,0,0), (1,0,0), (0,1,0).\<close>

definition triangle_record :: bytes where
  "triangle_record =
     replicate 24 (CHR 0x00) @ [CHR 0x00, CHR 0x00, CHR 0x80, CHR 0x3F] @ replicate 12 (CHR 0x00)
       @ [CHR 0x00, CHR 0x00, CHR 0x80, CHR 0x3F] @ replicate 6 (CHR 0x00)"

text \<open>A binary file named \<open>cube\<close> that declares one facet and holds the collinear record.\<close>

definition degenerate_file :: bytes where
  "degenerate_file =
     ''solid cube'' @ replicate 70 (CHR 0x00) @ [CHR 0x01, CHR 0x00, CHR 0x00, CHR 0x00]
       @ collinear_record"

text \<open>A blank header that declares one facet, followed by 75 bytes.\<close>

definition partial_record_file :: bytes where
  "partial_record_file =
     replicate 80 (CHR 0x20) @ [CHR 0x01, CHR 0x00, CHR 0x00, CHR 0x00] @ replicate 75 (CHR 0x00)"

text \<open>A header that declares 10 facets, followed by 9 records.\<close>

definition mismatch_file :: bytes where
  "mismatch_file =
     replicate 80 (CHR 0x00) @ [CHR 0x0A, CHR 0x00, CHR 0x00, CHR 0x00] @ replicate 450 (CHR 0x00)"

text \<open>A header with \<open>"solid "\<close> in the middle of the name, and no facets.\<close>

definition inner_solid_file :: bytes where
  "inner_solid_file = ''a solid b'' @ replicate 75 (CHR 0x00)"

text \<open>
  Text files; the 120 leading spaces put a \<open>vertex\<close> behind offset 120, so that the file
  is read as text.
\<close>

definition facet_without_solid :: bytes where
  "facet_without_solid = replicate 120 (CHR 0x20) @ ''facet vertex''"

definition solid_after_facet :: bytes where
  "solid_after_facet = replicate 120 (CHR 0x20) @ ''facet solid vertex''"

definition my_cube_file :: bytes where
  "my_cube_file = replicate 120 (CHR 0x20) @ ''solid My Cube facet normal vertex''"

definition one_facet_tokens :: "string list" where
  "one_facet_tokens =
     [''facet'', ''normal'', ''0'', ''0'', ''0'', ''outer'', ''loop'',
      ''vertex'', ''0'', ''0'', ''0'', ''vertex'', ''1'', ''0'', ''0'',
      ''vertex'', ''0'', ''1'', ''0'', ''endloop'', ''endfacet'']"




text \<open>A header that declares 2 facets, followed by one record.\<close>

definition mismatch_file_2 :: bytes where
  "mismatch_file_2 =
     replicate 80 (CHR 0x00) @ [CHR 0x02, CHR 0x00, CHR 0x00, CHR 0x00] @ replicate 50 (CHR 0x00)"

text \<open>One facet, and no \<open>endsolid\<close> after it.\<close>

definition truncated_text_file :: bytes where
  "truncated_text_file =
     replicate 120 (CHR 0x20) @
     ''solid s facet normal 0 0 0 outer loop vertex 0 0 0 vertex 1 0 0 vertex 0 1 0 endloop endfacet''"

subsection \<open>Lemmas about the helpers\<close>

lemma double_arith_simps [simp]:
  "fadd double_arith = (+)" "fsub double_arith = (-)" "fmul double_arith = (*)"
  "fdiv double_arith = (/)" "fsquare double_arith = square_double"
  "froot double_arith = root_double" "fzero double_arith = (\<lambda>x. x = 0)"
  by (simp_all add: double_arith_def)

lemma square_double_0 [simp]: "square_double 0 = Inr 0"
  by (simp add: square_double_def)

lemma square_double_1 [simp]: "square_double 1 = Inr 1"
  by (simp add: square_double_def)

lemma square_double_2 [simp]: "square_double 2 = Inr 4"
  by (simp add: square_double_def)



lemma root_double_0 [simp]: "root_double 0 = Inr 0"
  by (simp add: root_double_def)

lemma root_double_1 [simp]: "root_double 1 = Inr 1"
  by (simp add: root_double_def)

lemma root_double_4 [simp]: "root_double 4 = Inr 2"
  by (simp add: root_double_def)

lemma norm_v_zero: "norm_v double_arith (0, 0, 0) = Inl (ValueError ''zero-length normal vector'')"
  by (simp add: norm_v_def)

lemma norm_v_unit_z: "norm_v double_arith (0, 0, 1) = Inr (0, 0, 1)"
  by (simp add: norm_v_def)


lemma ieee_single_0: "ieee_single (replicate 4 (CHR 0x00)) = 0"
  by (simp add: ieee_single_def unpack_I_def)

lemma ieee_single_1: "ieee_single [CHR 0x00, CHR 0x00, CHR 0x80, CHR 0x3F] = 1"
  by (simp add: ieee_single_def unpack_I_def Let_def)

lemma ieee_single_2: "ieee_single [CHR 0x00, CHR 0x00, CHR 0x00, CHR 0x40] = 2"
  by (simp add: ieee_single_def unpack_I_def Let_def)

lemma unpack_collinear:
  "unpack_facet ieee_single collinear_record = Inr ((0, 0, 0), (1, 0, 0), (2, 0, 0))"
  using ieee_single_0 ieee_single_1 ieee_single_2 by (simp add: unpack_facet_def collinear_record_def)

lemma unpack_triangle:
  "unpack_facet ieee_single triangle_record = Inr ((0, 0, 0), (1, 0, 0), (0, 1, 0))"
  using ieee_single_0 ieee_single_1 by (simp add: unpack_facet_def triangle_record_def)

lemma float_digits_0: "float_digits ''0'' = Some 0"
  by (simp add: float_digits_def)

lemma float_digits_1: "float_digits ''1'' = Some 1"
  by (simp add: float_digits_def)



lemma vertices_one_facet:
  "vertices_at float_digits one_facet_tokens = Inr ((0, 0, 0), (1, 0, 0), (0, 1, 0))"
  by (simp add: vertices_at_def vertex_at_def float_at_def one_facet_tokens_def
      float_digits_0 float_digits_1)



lemma normal_of_line: "normal_of double_arith ((0, 0, 0), (1, 0, 0), (2, 0, 0)) = (0, 0, 0)"
  by (simp add: normal_of_def sub_v_def cross_v_def)

lemma normal_of_triangle: "normal_of double_arith ((0, 0, 0), (1, 0, 0), (0, 1, 0)) = (0, 0, 1)"
  by (simp add: normal_of_def sub_v_def cross_v_def)


lemma readbinary_collinear_record:
  "readbinary double_arith ieee_single 0 [collinear_record] =
     ([(SkippedDegenerate 1, None),
       (SkippedDegenerate 1, Some ((0, 0, 0), (1, 0, 0), (2, 0, 0), (0, 0, 0)))], Finished)"
  using normal_of_line
  by (simp add: unpack_collinear normal_of_def norm_v_zero yield_def Let_def)

lemma readbinary_step:
  "unpack_facet uf i = Inr t \<Longrightarrow> norm_caught ar t \<Longrightarrow>
   readbinary ar uf cnt (i # items) =
     yield (spec_items ar (cnt + 1) t) (readbinary ar uf (cnt + 1) items)"
  by (cases t)
     (auto simp: spec_items_def normal_of_def norm_caught_def Let_def
        split: sum.splits error.splits)

lemma readbinary_stream:
  "map (unpack_facet uf) items = map Inr ts \<Longrightarrow> list_all (norm_caught ar) ts \<Longrightarrow>
   readbinary ar uf cnt items = (spec_stream ar cnt ts, Finished)"
proof (induction items arbitrary: ts cnt)
  case Nil
  then show ?case by simp
next
  case (Cons i items)
  then obtain t ts' where ts: "ts = t # ts'" and t: "unpack_facet uf i = Inr t"
    and rest: "map (unpack_facet uf) items = map Inr ts'" by (cases ts) auto
  have c: "norm_caught ar t" and cs: "list_all (norm_caught ar) ts'"
    using Cons.prems(2) by (simp_all add: ts)
  show ?case
    unfolding ts readbinary_step [OF t c] Cons.IH [OF rest cs] by (simp add: yield_def)
qed

lemma float_at_append: "k < length blk \<Longrightarrow> float_at pf (blk @ after) k = float_at pf blk k"
  by (simp add: float_at_def nth_append split: option.splits)

lemma vertex_at_append:
  "k + 2 < length blk \<Longrightarrow> vertex_at pf (blk @ after) k = vertex_at pf blk k"
  by (simp add: vertex_at_def float_at_append cong: sum.case_cong)

lemma vertices_at_append:
  "19 \<le> length blk \<Longrightarrow> vertices_at pf (blk @ after) = vertices_at pf blk"
  by (simp add: vertices_at_def vertex_at_append cong: sum.case_cong)

lemma readtext_facet:
  assumes "length blk = 21" "hd blk = ''facet''" "vertices_at pf blk = Inr t"
  shows "readtext ar pf cnt (blk @ after) =
     (case norm_v ar (normal_of ar t) of
        Inr n' \<Rightarrow> yield (spec_items ar (cnt + 1) t) (readtext ar pf (cnt + 1) after)
      | Inl (ValueError m) \<Rightarrow> yield (spec_items ar (cnt + 1) t) (readtext ar pf (cnt + 1) after)
      | Inl e \<Rightarrow> ([], Raised e))"
proof -
  obtain x xs where blk: "blk = x # xs" using assms(1) by (cases blk) auto
  have v: "vertices_at pf (blk @ after) = Inr t" using assms by (simp add: vertices_at_append)
  obtain a b c where t: "t = (a, b, c)" by (cases t) auto
  show ?thesis
    apply (subst readtext.simps)
    using assms(1,2) v
    by (auto simp: blk t spec_items_def normal_of_def Let_def split: sum.splits error.splits)
qed

lemma readtext_step:
  assumes "length blk = 21" "hd blk = ''facet''" "vertices_at pf blk = Inr t" "norm_caught ar t"
  shows "readtext ar pf cnt (blk @ after) =
     yield (spec_items ar (cnt + 1) t) (readtext ar pf (cnt + 1) after)"
  using assms(4) unfolding readtext_facet [OF assms(1-3)]
  by (auto simp: norm_caught_def split: sum.splits error.splits)


lemma readtext_Nil: "readtext ar pf cnt [] = ([], Raised IndexError)"
  by (simp add: readtext.simps)


lemma norm_caught_triangle: "norm_caught double_arith ((0, 0, 0), (1, 0, 0), (0, 1, 0))"
  by (simp add: norm_caught_def normal_of_triangle norm_v_unit_z)

lemma spec_items_one_facet:
  "spec_items double_arith k ((0, 0, 0), (1, 0, 0), (0, 1, 0)) =
     [(FacetOK k, Some ((0, 0, 0), (1, 0, 0), (0, 1, 0), (0, 0, 1)))]"
  by (simp add: spec_items_def normal_of_triangle norm_v_unit_z)


lemma readtext_one_facet_tokens:
  "readtext double_arith float_digits 0 one_facet_tokens =
     ([(FacetOK 1, Some ((0, 0, 0), (1, 0, 0), (0, 1, 0), (0, 0, 1)))], Raised IndexError)"
  using readtext_step [of one_facet_tokens float_digits _ double_arith 0 "[]",
      OF _ _ vertices_one_facet norm_caught_triangle]
  by (simp add: one_facet_tokens_def readtext_Nil spec_items_one_facet yield_def)


lemma find_at_replicate:
  "sub \<noteq> [] \<Longrightarrow> hd sub \<noteq> c \<Longrightarrow> find_at sub (replicate n c) i = None"
  by (induction n arbitrary: i) (auto simp: prefix_def neq_Nil_conv)

lemma str_remove_absent: "find_at old s i = None \<Longrightarrow> str_remove old s = s"
  by (induction s arbitrary: i) (auto split: if_splits)

lemma str_remove_replicate:
  "old \<noteq> [] \<Longrightarrow> hd old \<noteq> c \<Longrightarrow> str_remove old (replicate n c) = replicate n c"
  by (rule str_remove_absent [where i = 0]) (rule find_at_replicate)

lemma dropWhile_replicate_append:
  "P c \<Longrightarrow> dropWhile P (replicate n c @ s) = dropWhile P s"
  by (induction n) simp_all

lemma dropWhile_replicate_all: "P c \<Longrightarrow> dropWhile P (replicate n c) = []"
  by (induction n) simp_all

lemma binary_name_cube: "binary_name (''solid cube'' @ replicate 70 (CHR 0x00)) = ''cube''"
  by (simp add: binary_name_def str_strip_def str_remove_replicate dropWhile_replicate_append)

lemma binary_name_blank: "binary_name (replicate 80 (CHR 0x20)) = ''unknown''"
  by (simp add: binary_name_def str_strip_def str_remove_replicate dropWhile_replicate_all)

lemma binary_name_inner_solid: "binary_name (''a solid b'' @ replicate 71 (CHR 0x00)) = ''a b''"
  by (simp add: binary_name_def str_strip_def str_remove_replicate dropWhile_replicate_append)

lemma is_binary_partial_record_file: "is_binary partial_record_file"
  by (simp add: is_binary_def str_find_def partial_record_file_def find_at_replicate)

lemma fromstl_partial_record_file: "fromstl partial_record_file = Inr (''unknown'', 1, BinaryReader [replicate 50 (CHR 0x00), replicate 25 (CHR 0x00)])"
  unfolding fromstl_def using is_binary_partial_record_file
  by (simp add: partial_record_file_def unpack_I_def binary_name_blank range50_def Let_def upt_rec)

lemma is_binary_degenerate_file: "is_binary degenerate_file"
  by (simp add: is_binary_def str_find_def degenerate_file_def collinear_record_def find_at_replicate)

lemma fromstl_degenerate_file: "fromstl degenerate_file = Inr (''cube'', 1, BinaryReader [collinear_record])"
  unfolding fromstl_def using is_binary_degenerate_file
  using binary_name_cube
  by (simp add: degenerate_file_def unpack_I_def range50_def Let_def upt_rec collinear_record_def)

lemma is_binary_inner_solid_file: "is_binary inner_solid_file"
  by (simp add: is_binary_def str_find_def inner_solid_file_def)

lemma fromstl_inner_solid_file: "fromstl inner_solid_file = Inr (''a b'', 0, BinaryReader [])"
  unfolding fromstl_def using is_binary_inner_solid_file
  using binary_name_inner_solid by (simp add: inner_solid_file_def unpack_I_def range50_def Let_def)

lemma spec_binary_name_inner_solid: "spec_binary_name (take 80 inner_solid_file) = ''a solid b''"
  by (simp add: inner_solid_file_def spec_binary_name_def str_strip_def dropWhile_replicate_append)

lemma split_acc_spaces: "split_acc [] (replicate n (CHR 0x20) @ s) = split_acc [] s"
  by (induction n) (simp_all add: whitespace_def)

lemma str_strip_token [simp]: "set w \<inter> set chars = {} \<Longrightarrow> str_strip chars w = w"
proof -
  assume "set w \<inter> set chars = {}"
  then have "\<And>v. set v \<subseteq> set w \<Longrightarrow> dropWhile (\<lambda>c. c \<in> set chars) v = v"
    using hd_in_set by (fastforce simp: dropWhile_eq_self_iff)
  then show ?thesis by (simp add: str_strip_def)
qed

lemma tokens_facet_without_solid: "tokens facet_without_solid = [''facet'', ''vertex'']"
  by (simp add: tokens_def str_split_def facet_without_solid_def split_acc_spaces whitespace_def)

lemma tokens_solid_after_facet: "tokens solid_after_facet = [''facet'', ''solid'', ''vertex'']"
  by (simp add: tokens_def str_split_def solid_after_facet_def split_acc_spaces whitespace_def)

lemma tokens_truncated_text_file: "tokens truncated_text_file = ''solid'' # ''s'' # one_facet_tokens"
  by (simp add: tokens_def str_split_def truncated_text_file_def split_acc_spaces whitespace_def one_facet_tokens_def)

lemma is_text_facet_without_solid: "\<not> is_binary facet_without_solid"
  by (simp add: is_binary_def str_find_def facet_without_solid_def)

lemma is_text_solid_after_facet: "\<not> is_binary solid_after_facet"
  by (simp add: is_binary_def str_find_def solid_after_facet_def)

lemma is_text_truncated_text_file: "\<not> is_binary truncated_text_file"
  by (simp add: is_binary_def str_find_def truncated_text_file_def)

lemma fromstl_facet_without_solid: "fromstl facet_without_solid = Inl NotAnStlFile"
  by (simp add: fromstl_def is_text_facet_without_solid tokens_facet_without_solid NotAnStlFile_def)

lemma fromstl_solid_after_facet: "fromstl solid_after_facet = Inr ([], 1, TextReader [''facet'', ''solid'', ''vertex''])"
  by (simp add: fromstl_def is_text_solid_after_facet tokens_solid_after_facet)

lemma fromstl_truncated_text_file: "fromstl truncated_text_file = Inr (''s'', 1, TextReader one_facet_tokens)"
  by (simp add: fromstl_def is_text_truncated_text_file tokens_truncated_text_file one_facet_tokens_def)

lemma list_index_None: "list_index xs x = None \<longleftrightarrow> x \<notin> set xs"
  by (induction xs) auto

lemma list_index_less: "list_index xs x = Some j \<Longrightarrow> j < length xs"
  by (induction xs arbitrary: j) (auto split: if_splits)

lemma list_index_drop:
  "list_index xs x = Some j \<Longrightarrow> drop j xs = dropWhile (\<lambda>t. t \<noteq> x) xs"
  by (induction xs arbitrary: j) (auto split: if_splits)

lemma is_binary_mismatch_file: "is_binary mismatch_file"
  by (simp add: is_binary_def str_find_def mismatch_file_def find_at_replicate)

lemma is_binary_short: "length data < 120 \<Longrightarrow> is_binary data"
  by (simp add: is_binary_def str_find_def)

lemma slice_conv_nth:
  "j \<le> length xs \<Longrightarrow> take (j - s) (drop s xs) = map (\<lambda>k. xs ! k) [s ..< j]"
  by (rule nth_equalityI) (auto simp: nth_map_upt)

lemma str_remove_prefix:
  "old \<noteq> [] \<Longrightarrow> prefix old s \<Longrightarrow> str_remove old s = str_remove old (drop (length old) s)"
  by (cases s) auto

lemma tokens_my_cube_file:
  "tokens my_cube_file = [''solid'', ''My'', ''Cube'', ''facet'', ''normal'', ''vertex'']"
  by (simp add: tokens_def str_split_def my_cube_file_def split_acc_spaces whitespace_def)

lemma is_text_my_cube_file: "\<not> is_binary my_cube_file"
  by (simp add: is_binary_def str_find_def my_cube_file_def)

lemma fromstl_my_cube_file:
  "fromstl my_cube_file = Inr (''My Cube'', 1, TextReader [''facet'', ''normal'', ''vertex''])"
  by (simp add: fromstl_def is_text_my_cube_file tokens_my_cube_file)

lemma is_binary_mismatch_file_2: "is_binary mismatch_file_2"
  by (simp add: is_binary_def str_find_def mismatch_file_2_def find_at_replicate)

lemma fromstl_mismatch_file:
  "fromstl mismatch_file = Inl FormatMismatch"
  using is_binary_mismatch_file
  by (simp add: fromstl_def mismatch_file_def unpack_I_def FormatMismatch_def)

lemma fromstl_mismatch_file_2:
  "fromstl mismatch_file_2 = Inl FormatMismatch"
  using is_binary_mismatch_file_2
  by (simp add: fromstl_def mismatch_file_2_def unpack_I_def FormatMismatch_def)

lemma concat_chunks:
  "concat (map (\<lambda>n. take 50 (drop n d)) (map (\<lambda>k. 50 * k) [0 ..< m])) = take (50 * m) d"
proof (induction m)
  case 0
  then show ?case by simp
next
  case (Suc m)
  have "take (50 * m) d @ take 50 (drop (50 * m) d) = take (50 * m + 50) d"
    by (simp add: take_add)
  then show ?case using Suc by (simp add: add.commute)
qed

lemma chunks_exact:
  assumes "50 dvd length d"
  shows "length (map (\<lambda>n. take 50 (drop n d)) (range50 (length d))) = length d div 50"
    and "\<forall>i \<in> set (map (\<lambda>n. take 50 (drop n d)) (range50 (length d))). length i = 50"
    and "concat (map (\<lambda>n. take 50 (drop n d)) (range50 (length d))) = d"
proof -
  obtain m where m: "length d = 50 * m" using assms by (auto simp: dvd_def)
  have "(50 * m + 49) div 50 = m" by arith
  then have r: "range50 (length d) = map (\<lambda>k. 50 * k) [0 ..< m]"
    by (simp add: range50_def m)
  show "length (map (\<lambda>n. take 50 (drop n d)) (range50 (length d))) = length d div 50"
    unfolding r by (simp add: m)
  show "\<forall>i \<in> set (map (\<lambda>n. take 50 (drop n d)) (range50 (length d))). length i = 50"
    unfolding r by (auto simp: m)
  show "concat (map (\<lambda>n. take 50 (drop n d)) (range50 (length d))) = d"
    unfolding r concat_chunks by (simp add: m)
qed

section \<open>The claims\<close>

subsection \<open>C1: degenerate facets and allfacets\<close>

text \<open>
  Claim C1 says that a facet whose vertices are collinear or coincident is reported with
  a degenerate status and is left out of the list that \<open>allfacets\<close> returns. On the
  record with the vertices (0,0,0), (1,0,0), (2,0,0) the reader reports the degenerate
  status, twice, but \<open>allfacets\<close> returns the facet, with the zero vector as its normal:
  after the \<open>yield status, None\<close> of the handler the generator goes on to the \<open>yield\<close>
  of line 130, and a tuple of four is true.
\<close>

theorem allfacets_keeps_degenerate_facet:
  "map fst (fst (readbinary double_arith ieee_single 0 [collinear_record]))
     = [SkippedDegenerate 1, SkippedDegenerate 1] \<and>
   snd (allfacets (readbinary double_arith ieee_single 0 [collinear_record]) False)
     = Inr [((0, 0, 0), (1, 0, 0), (2, 0, 0), (0, 0, 0))]"
  by (simp only: readbinary_collinear_record) (simp add: allfacets_def)

subsection \<open>C2: the facet count of a binary file\<close>

text \<open>
  Two files whose counts do not match, one with 10 declared and 9 held, one with 2
  declared and 1 held: the error is the same fixed message for both, so it carries
  neither count.
\<close>

theorem mismatch_error_counterexample:
  "is_binary mismatch_file \<and> is_binary mismatch_file_2 \<and>
   unpack_I (drop 80 (take 84 mismatch_file)) = 10 \<and> (length mismatch_file - 84) div 50 = 9 \<and>
   unpack_I (drop 80 (take 84 mismatch_file_2)) = 2 \<and> (length mismatch_file_2 - 84) div 50 = 1 \<and>
   fromstl mismatch_file
     = Inl (ValueError (''Number of facets doesn'' @ [CHR 0x27] @ ''t match file size.'')) \<and>
   fromstl mismatch_file_2
     = Inl (ValueError (''Number of facets doesn'' @ [CHR 0x27] @ ''t match file size.''))"
  using is_binary_mismatch_file is_binary_mismatch_file_2 fromstl_mismatch_file
    fromstl_mismatch_file_2
  by (simp add: FormatMismatch_def) (simp add: mismatch_file_def mismatch_file_2_def unpack_I_def)

text \<open>
  Claim C2, amended: for every input that is classified as binary, has at least 84 bytes
  and holds a whole number of 50-byte records behind them, \<open>fromstl\<close> fails with the
  ValueError "Number of facets doesn't match file size." exactly when the count in the
  header differs from the number of records; the error is this fixed message and carries
  no count; otherwise \<open>fromstl\<close> raises nothing and returns the name, the count and a
  reader on the records, which are the bytes behind the header cut into pieces of 50.
\<close>

theorem fromstl_binary_count_check:
  assumes "is_binary data" and "84 \<le> length data" and "50 dvd (length data - 84)"
  shows "(fromstl data = Inl FormatMismatch
            \<longleftrightarrow> unpack_I (drop 80 (take 84 data)) \<noteq> (length data - 84) div 50) \<and>
         (unpack_I (drop 80 (take 84 data)) = (length data - 84) div 50 \<longrightarrow>
            (\<exists>items. fromstl data =
               Inr (binary_name (take 80 data), (length data - 84) div 50, BinaryReader items) \<and>
               length items = (length data - 84) div 50 \<and>
               (\<forall>i \<in> set items. length i = 50) \<and>
               concat items = drop 84 data)) \<and>
         (\<forall>e. fromstl data = Inl e \<longrightarrow>
            e = ValueError (''Number of facets doesn'' @ [CHR 0x27] @ ''t match file size.''))"
proof -
  let ?d = "drop 84 data"
  let ?n = "(length data - 84) div 50"
  let ?items = "map (\<lambda>n. take 50 (drop n ?d)) (range50 (length ?d))"
  let ?msg = "ValueError (''Number of facets doesn'' @ [CHR 0x27] @ ''t match file size.'')"
  have ld: "length ?d = length data - 84" by simp
  have d: "50 dvd length ?d" using assms(3) by simp
  have l: "length (take 84 data) = 84" using assms(2) by simp
  have eq: "fromstl data =
      (if unpack_I (drop 80 (take 84 data)) \<noteq> ?n then Inl ?msg
       else Inr (binary_name (take 80 data), unpack_I (drop 80 (take 84 data)),
                 BinaryReader ?items))"
    unfolding fromstl_def using assms(1) l by (simp add: Let_def)
  have c1: "length ?items = ?n"
    using chunks_exact(1) [OF d] unfolding ld .
  have c2: "\<forall>i \<in> set ?items. length i = 50"
    using chunks_exact(2) [OF d] .
  have c3: "concat ?items = ?d"
    using chunks_exact(3) [OF d] .
  show ?thesis
  proof (cases "unpack_I (drop 80 (take 84 data)) = ?n")
    case True
    then have f: "fromstl data = Inr (binary_name (take 80 data), ?n, BinaryReader ?items)"
      unfolding eq by simp
    have "fromstl data = Inr (binary_name (take 80 data), ?n, BinaryReader ?items) \<and>
          length ?items = ?n \<and> (\<forall>i \<in> set ?items. length i = 50) \<and> concat ?items = ?d"
      using f c1 c2 c3 by (intro conjI)
    then have ex: "\<exists>items. fromstl data =
               Inr (binary_name (take 80 data), ?n, BinaryReader items) \<and>
               length items = ?n \<and> (\<forall>i \<in> set items. length i = 50) \<and>
               concat items = ?d"
      by (rule exI)
    have a: "fromstl data = Inl FormatMismatch
        \<longleftrightarrow> unpack_I (drop 80 (take 84 data)) \<noteq> ?n"
      using True by (simp add: f)
    have b: "\<forall>e. fromstl data = Inl e \<longrightarrow> e = ?msg" by (simp add: f)
    show ?thesis using a ex b by (intro conjI impI)
  next
    case False
    then have f: "fromstl data = Inl ?msg" unfolding eq by simp
    have a: "fromstl data = Inl FormatMismatch
        \<longleftrightarrow> unpack_I (drop 80 (take 84 data)) \<noteq> ?n"
      using False by (simp add: f FormatMismatch_def)
    have b: "\<forall>e. fromstl data = Inl e \<longrightarrow> e = ?msg" by (simp add: f)
    show ?thesis using a b False by (intro conjI impI) simp_all
  qed
qed

text \<open>The file that declares 10 facets and holds 9 records.\<close>

theorem fromstl_binary_count_check_witness:
  "is_binary mismatch_file \<and> 84 \<le> length mismatch_file \<and> 50 dvd (length mismatch_file - 84) \<and>
   unpack_I (drop 80 (take 84 mismatch_file)) = 10 \<and> (length mismatch_file - 84) div 50 = 9 \<and>
   fromstl mismatch_file = Inl FormatMismatch"
proof -
  have b: "is_binary mismatch_file" by (rule is_binary_mismatch_file)
  have l: "84 \<le> length mismatch_file" by (simp add: mismatch_file_def)
  have v: "50 dvd (length mismatch_file - 84)" by (simp add: mismatch_file_def)
  have d: "unpack_I (drop 80 (take 84 mismatch_file)) = 10"
    by (simp add: mismatch_file_def unpack_I_def)
  have n: "(length mismatch_file - 84) div 50 = 9" by (simp add: mismatch_file_def)
  have "fromstl mismatch_file = Inl FormatMismatch
      \<longleftrightarrow> unpack_I (drop 80 (take 84 mismatch_file)) \<noteq> (length mismatch_file - 84) div 50"
    using fromstl_binary_count_check [OF b l v] by (rule conjunct1)
  then have "fromstl mismatch_file = Inl FormatMismatch" by (simp only: d n)
  then show ?thesis using b l v d n by (intro conjI)
qed

subsection \<open>C3: two items for a degenerate facet, one for any other\<close>




subsection \<open>C4: the declared count and the number of items\<close>

text \<open>
  Claim C4 says that for a binary file that \<open>fromstl\<close> accepts the declared count is the
  number of records and the number of items of the stream. The file \<open>degenerate_file\<close>
  declares one facet and holds one record; \<open>fromstl\<close> accepts it, and the stream has two
  items, since the reader yields twice for the degenerate facet.
\<close>

theorem degenerate_file_stream_length:
  "fromstl degenerate_file = Inr (''cube'', 1, BinaryReader [collinear_record]) \<and>
   length (fst (run_reader double_arith ieee_single float_digits
                  (BinaryReader [collinear_record]))) = 2"
  by (simp only: fromstl_degenerate_file run_reader.simps readbinary_collinear_record) simp

subsection \<open>C5: text input that is not an STL file\<close>

text \<open>
  A text file with the tokens \<open>facet\<close> and \<open>vertex\<close>: there is a \<open>facet\<close> token, and
  \<open>fromstl\<close> fails all the same, since \<open>items.index("solid")\<close> raises inside the same
  \<open>try\<close>.
\<close>

theorem facet_without_solid_counterexample:
  "\<not> is_binary facet_without_solid \<and> ''facet'' \<in> set (tokens facet_without_solid) \<and>
   fromstl facet_without_solid = Inl NotAnStlFile"
  by (simp add: is_text_facet_without_solid tokens_facet_without_solid fromstl_facet_without_solid)

text \<open>
  Claim C5, amended: for every input classified as text, \<open>fromstl\<close> fails with the
  ValueError "Not an STL file." if and only if the token list has no \<open>solid\<close> token or
  no \<open>facet\<close> token; when both exist the call returns, with the number of \<open>facet\<close>
  tokens as the count and a reader on the tokens from the first \<open>facet\<close> on.
\<close>

theorem fromstl_text_not_an_stl_file:
  assumes "\<not> is_binary data"
  shows "(fromstl data = Inl NotAnStlFile
            \<longleftrightarrow> ''solid'' \<notin> set (tokens data) \<or> ''facet'' \<notin> set (tokens data)) \<and>
         (''solid'' \<in> set (tokens data) \<and> ''facet'' \<in> set (tokens data) \<longrightarrow>
            (\<exists>name. fromstl data =
               Inr (name, count_list (tokens data) ''facet'',
                    TextReader (dropWhile (\<lambda>t. t \<noteq> ''facet'') (tokens data))))) \<and>
         (\<forall>e. fromstl data = Inl e \<longrightarrow> e = NotAnStlFile)"
proof -
  let ?items = "tokens data"
  show ?thesis
  proof (cases "list_index ?items ''solid''")
    case None
    then show ?thesis
      using assms by (simp add: fromstl_def NotAnStlFile_def list_index_None [symmetric])
  next
    case solid: (Some i)
    show ?thesis
    proof (cases "list_index ?items ''facet''")
      case None
      then show ?thesis
        using assms solid by (simp add: fromstl_def NotAnStlFile_def list_index_None [symmetric])
    next
      case facet: (Some en)
      have "''solid'' \<in> set ?items" "''facet'' \<in> set ?items"
        using solid facet list_index_None [of ?items] by (metis option.distinct(1))+
      then show ?thesis
        using assms solid facet
        by (simp add: fromstl_def NotAnStlFile_def Let_def list_index_drop)
    qed
  qed
qed

theorem fromstl_text_not_an_stl_file_witness:
  "\<not> is_binary truncated_text_file \<and> ''solid'' \<in> set (tokens truncated_text_file) \<and>
   ''facet'' \<in> set (tokens truncated_text_file) \<and>
   fromstl truncated_text_file \<noteq> Inl NotAnStlFile"
  using fromstl_text_not_an_stl_file [OF is_text_truncated_text_file]
  by (simp add: is_text_truncated_text_file tokens_truncated_text_file one_facet_tokens_def)

subsection \<open>C6: normalization\<close>




subsection \<open>C7: the name of a binary file\<close>

text \<open>
  A header \<open>a solid b\<close>: \<open>replace\<close> deletes the \<open>"solid "\<close> in the middle, where the
  specification strips a leading one only.
\<close>

theorem inner_solid_name_counterexample:
  "is_binary inner_solid_file \<and>
   fromstl inner_solid_file = Inr (''a b'', 0, BinaryReader []) \<and>
   spec_binary_name (take 80 inner_solid_file) = ''a solid b''"
  by (simp add: is_binary_inner_solid_file fromstl_inner_solid_file spec_binary_name_inner_solid)

text \<open>
  Claim C7, amended: for every input classified as binary that \<open>fromstl\<close> accepts, the
  name is obtained from the 80-byte field by deleting every occurrence of \<open>"solid "\<close>
  (not only a leading one) and then trimming NUL, space, tab, LF and CR at both ends; it
  is \<open>"unknown"\<close> when nothing is left, and is never empty. When \<open>"solid "\<close> does not
  occur in the field behind a leading occurrence, this is the name of the specification.
\<close>

theorem fromstl_binary_name:
  assumes "is_binary data" and "fromstl data = Inr (name, nf, r)"
  shows "name = (let s = str_strip [CHR 0x00, CHR 0x20, CHR 0x09, CHR 0x0A, CHR 0x0D]
                          (str_remove ''solid '' (take 80 data))
                 in if s = [] then ''unknown'' else s) \<and>
         name \<noteq> [] \<and>
         (find_at ''solid ''
            (if prefix ''solid '' (take 80 data) then drop 6 (take 80 data) else take 80 data) 0
            = None \<longrightarrow> name = spec_binary_name (take 80 data))"
proof -
  let ?field = "take 80 data"
  have name: "name = binary_name ?field"
    using assms by (simp add: fromstl_def Let_def split: if_splits)
  have agree: "str_remove ''solid '' ?field = (if prefix ''solid '' ?field then drop 6 ?field else ?field)"
    if "find_at ''solid '' (if prefix ''solid '' ?field then drop 6 ?field else ?field) 0 = None"
  proof (cases "prefix ''solid '' ?field")
    case True
    have six: "length ''solid '' = 6" by (simp add: eval_nat_numeral)
    have "str_remove ''solid '' ?field
        = str_remove ''solid '' (drop (length ''solid '') ?field)"
      using True by (intro str_remove_prefix) simp_all
    also have "\<dots> = str_remove ''solid '' (drop 6 ?field)" by (simp only: six)
    also have "\<dots> = drop 6 ?field" using that True by (simp add: str_remove_absent)
    finally show ?thesis using True by simp
  next
    case False
    then show ?thesis using that by (simp add: str_remove_absent)
  qed
  show ?thesis
    unfolding name using agree
    by (auto simp: binary_name_def spec_binary_name_def Let_def)
qed

text \<open>The header \<open>solid cube\<close> padded with NULs, and the blank header.\<close>

theorem fromstl_binary_name_witness:
  "is_binary degenerate_file \<and>
   fromstl degenerate_file = Inr (''cube'', 1, BinaryReader [collinear_record]) \<and>
   spec_binary_name (take 80 degenerate_file) = ''cube'' \<and>
   is_binary partial_record_file \<and>
   fromstl partial_record_file
     = Inr (''unknown'', 1, BinaryReader [replicate 50 (CHR 0x00), replicate 25 (CHR 0x00)]) \<and>
   spec_binary_name (take 80 partial_record_file) = ''unknown''"
proof -
  have 1: "find_at ''solid ''
            (if prefix ''solid '' (take 80 degenerate_file) then drop 6 (take 80 degenerate_file)
             else take 80 degenerate_file) 0 = None"
    by (simp add: degenerate_file_def find_at_replicate)
  have 2: "find_at ''solid ''
            (if prefix ''solid '' (take 80 partial_record_file)
             then drop 6 (take 80 partial_record_file)
             else take 80 partial_record_file) 0 = None"
    by (simp add: partial_record_file_def find_at_replicate)
  have a: "''cube'' = spec_binary_name (take 80 degenerate_file)"
    using fromstl_binary_name [OF is_binary_degenerate_file fromstl_degenerate_file] 1 by blast
  have b: "''unknown'' = spec_binary_name (take 80 partial_record_file)"
    using fromstl_binary_name [OF is_binary_partial_record_file fromstl_partial_record_file] 2
    by blast
  show ?thesis
    using a [symmetric] b [symmetric] is_binary_degenerate_file fromstl_degenerate_file
      is_binary_partial_record_file fromstl_partial_record_file
    by blast
qed

subsection \<open>C8: the name and the count of a text file\<close>

text \<open>
  A text file with the tokens \<open>facet solid vertex\<close>: no token lies between the first
  \<open>solid\<close> and the first \<open>facet\<close>, and the name is the empty string, not \<open>"unknown"\<close>.
\<close>

theorem solid_after_facet_counterexample:
  "\<not> is_binary solid_after_facet \<and>
   fromstl solid_after_facet = Inr ([], 1, TextReader [''facet'', ''solid'', ''vertex'']) \<and>
   spec_between (tokens solid_after_facet) = [] \<and>
   spec_text_name (tokens solid_after_facet) = ''unknown''"
  by (simp add: is_text_solid_after_facet fromstl_solid_after_facet tokens_solid_after_facet
      spec_text_name_def spec_between_def)

text \<open>
  Claim C8, amended: for every input classified as text that \<open>fromstl\<close> accepts, the
  count is the number of \<open>facet\<close> tokens; and when the first \<open>solid\<close> comes before the
  first \<open>facet\<close>, the name is the tokens strictly between them joined by single spaces,
  or \<open>"unknown"\<close> when there are none.
\<close>

theorem fromstl_text_name_and_count:
  assumes "\<not> is_binary data" and "fromstl data = Inr (name, nf, r)"
  shows "nf = count_list (tokens data) ''facet'' \<and>
         (\<forall>i j. list_index (tokens data) ''solid'' = Some i \<and>
                list_index (tokens data) ''facet'' = Some j \<and> i < j \<longrightarrow>
                name = spec_text_name (tokens data))"
proof -
  let ?items = "tokens data"
  obtain i j where i: "list_index ?items ''solid'' = Some i"
    and j: "list_index ?items ''facet'' = Some j"
    using assms by (auto simp: fromstl_def Let_def split: option.splits)
  have nf: "nf = count_list ?items ''facet''"
    and name: "name = (if i + 1 = j then ''unknown'' else join_sp (take (j - (i + 1)) (drop (i + 1) ?items)))"
    using assms i j by (auto simp add: fromstl_def Let_def)
  have "name = spec_text_name ?items" if "i < j"
  proof -
    have "j \<le> length ?items" using list_index_less [OF j] by simp
    then have "take (j - (i + 1)) (drop (i + 1) ?items) = spec_between ?items"
      using i j by (simp add: spec_between_def slice_conv_nth)
    moreover have "spec_between ?items = [] \<longleftrightarrow> i + 1 = j"
      using i j that by (auto simp: spec_between_def)
    ultimately show ?thesis using name by (simp add: spec_text_name_def)
  qed
  then show ?thesis using nf i j by simp
qed

theorem fromstl_text_name_and_count_witness:
  "\<not> is_binary my_cube_file \<and>
   fromstl my_cube_file = Inr (''My Cube'', 1, TextReader [''facet'', ''normal'', ''vertex'']) \<and>
   list_index (tokens my_cube_file) ''solid'' = Some 0 \<and>
   list_index (tokens my_cube_file) ''facet'' = Some 3 \<and>
   spec_text_name (tokens my_cube_file) = ''My Cube'' \<and>
   count_list (tokens my_cube_file) ''facet'' = 1"
  using fromstl_text_name_and_count [OF is_text_my_cube_file fromstl_my_cube_file]
  by (simp add: is_text_my_cube_file fromstl_my_cube_file tokens_my_cube_file)

subsection \<open>C9: the end of the token list\<close>

text \<open>
  Claim C9 says that the text reader ends normally as soon as the current token is not
  \<open>facet\<close>, and that \<open>items[0]\<close> at the head of the loop is always in bounds, also when
  the token list has been consumed. A text file that ends with its last \<open>endfacet\<close> is
  accepted by \<open>fromstl\<close>; the reader yields the facet, the token list is then empty, and
  \<open>items[0]\<close> raises IndexError, so that \<open>allfacets\<close> returns nothing. The binary reader
  ends normally after the last record of the same facet.
\<close>

theorem readtext_index_error_at_end:
  "\<not> is_binary truncated_text_file \<and>
   fromstl truncated_text_file = Inr (''s'', 1, TextReader one_facet_tokens) \<and>
   run_reader double_arith ieee_single float_digits (TextReader one_facet_tokens) =
     ([(FacetOK 1, Some ((0, 0, 0), (1, 0, 0), (0, 1, 0), (0, 0, 1)))], Raised IndexError) \<and>
   snd (allfacets (run_reader double_arith ieee_single float_digits
                     (TextReader one_facet_tokens)) False) = Inl IndexError \<and>
   run_reader double_arith ieee_single float_digits
       (BinaryReader [triangle_record]) =
     ([(FacetOK 1, Some ((0, 0, 0), (1, 0, 0), (0, 1, 0), (0, 0, 1)))], Finished)"
proof -
  have b: "readbinary double_arith ieee_single 0 [triangle_record] =
      ([(FacetOK 1, Some ((0, 0, 0), (1, 0, 0), (0, 1, 0), (0, 0, 1)))], Finished)"
    using readbinary_stream [of ieee_single "[triangle_record]"
        "[((0, 0, 0), (1, 0, 0), (0, 1, 0))]" double_arith 0]
    by (simp add: unpack_triangle norm_caught_triangle spec_items_one_facet)
  show ?thesis
    using is_text_truncated_text_file fromstl_truncated_text_file
    by (simp only: run_reader.simps readtext_one_facet_tokens b) (simp add: allfacets_def)
qed

subsection \<open>C10: files shorter than the header\<close>

text \<open>
  Claim C10: an input of fewer than 84 bytes is classified as binary (there is nothing at
  offset 120), and \<open>fromstl\<close> fails with the error of \<open>struct.unpack\<close>, which is neither
  of the two ValueErrors of the module.
\<close>

theorem fromstl_short_file_struct_error:
  "length data < 84 \<Longrightarrow>
   is_binary data \<and> fromstl data = Inl StructError \<and>
   StructError \<noteq> FormatMismatch \<and> StructError \<noteq> NotAnStlFile"
  by (simp add: is_binary_short fromstl_def FormatMismatch_def NotAnStlFile_def)

theorem fromstl_short_file_struct_error_witness:
  "length ''solid'' < 84 \<and> is_binary ''solid'' \<and> fromstl ''solid'' = Inl StructError"
  using fromstl_short_file_struct_error [of "''solid''"] by simp

end
